theory Spec2Isabelle
  imports Main "HOL-Library.Word"
begin

unbundle bit_operations_syntax

section \<open>Python values and exceptions\<close>

text \<open>
  \<^verbatim>\<open>app.py\<close> is a pipeline of three functions (\<^verbatim>\<open>get_smiles_from_chembl\<close>,
  \<^verbatim>\<open>smiles_to_mol\<close>, \<^verbatim>\<open>mol_to_png_bytes\<close>) and the block run when the form is submitted.
  Text is a \<^typ>\<open>string\<close>: the bytes of its UTF-8 encoding. A name typed into the form always
  has one. A string decoded from JSON can also hold surrogate code points (from an escape of
  U+D800 to U+DFFF), which have none; such a code point is written as the three bytes of its
  generalised encoding, \<^verbatim>\<open>ED\<close>, then \<^verbatim>\<open>A0\<close> to \<^verbatim>\<open>BF\<close>, then a continuation byte, a sequence that
  no UTF-8 text contains.

  The value that \<^verbatim>\<open>r.json()\<close> decodes is an untyped Python object, so the model keeps all the
  shapes it can have. A dict is an association list read with \<^const>\<open>map_of\<close>; a float is its
  IEEE-754 bit pattern, which is all that its truth value needs.
\<close>

datatype pyval =
    PNone
  | PBool bool
  | PInt int
  | PFloat "64 word"
  | PStr string
  | PList "pyval list"
  | PDict "(string \<times> pyval) list"

text \<open>Python's \<^verbatim>\<open>bool(v)\<close>: what \<^verbatim>\<open>if v\<close>, \<^verbatim>\<open>not v\<close> and \<^verbatim>\<open>v or w\<close> test.\<close>

fun truthy :: "pyval \<Rightarrow> bool" where
  "truthy PNone = False"
| "truthy (PBool b) = b"
| "truthy (PInt i) = (i \<noteq> 0)"
| "truthy (PFloat w) = (w AND 0x7FFFFFFFFFFFFFFF \<noteq> 0)"
| "truthy (PStr s) = (s \<noteq> [])"
| "truthy (PList xs) = (xs \<noteq> [])"
| "truthy (PDict kvs) = (kvs \<noteq> [])"

definition py_or :: "pyval \<Rightarrow> pyval \<Rightarrow> pyval" where
  "py_or v w = (if truthy v then v else w)"

text \<open>
  The exceptions the program can meet. Everything \<^verbatim>\<open>requests\<close> raises is a subclass of
  \<^verbatim>\<open>requests.RequestException\<close>; \<^verbatim>\<open>StopException\<close> is what \<^verbatim>\<open>st.stop()\<close> raises to end the
  script run, and it is the only one here that is not a subclass of \<^verbatim>\<open>Exception\<close>.
\<close>

datatype request_exception =
  Timeout | ConnectionError | TooManyRedirects | HTTPError nat | JSONDecodeError

datatype py_exn =
    RequestException request_exception
  | AttributeError
  | TypeError
  | UnicodeEncodeError
  | OverflowError
  | RuntimeError
  | MolSanitizeException
  | StopException

fun is_RequestException :: "py_exn \<Rightarrow> bool" where
  "is_RequestException (RequestException _) = True"
| "is_RequestException _ = False"

fun is_Exception :: "py_exn \<Rightarrow> bool" where
  "is_Exception StopException = False"
| "is_Exception _ = True"

text \<open>
  \<^verbatim>\<open>v.get(k)\<close>: a dict answers with the value or \<^verbatim>\<open>None\<close>; no other decoded value has the
  attribute. \<^verbatim>\<open>for h in v\<close>: a list gives its items, a dict its keys, a string its characters
  (each again a string); the other values are not iterable.
\<close>

fun py_get :: "pyval \<Rightarrow> string \<Rightarrow> py_exn + pyval" where
  "py_get (PDict kvs) k = Inr (case map_of kvs k of None \<Rightarrow> PNone | Some v \<Rightarrow> v)"
| "py_get _ k = Inl AttributeError"

fun py_iter :: "pyval \<Rightarrow> py_exn + pyval list" where
  "py_iter (PList xs) = Inr xs"
| "py_iter (PDict kvs) = Inr (map (\<lambda>kv. PStr (fst kv)) kvs)"
| "py_iter (PStr s) = Inr (map (\<lambda>c. PStr [c]) s)"
| "py_iter _ = Inl TypeError"

section \<open>Effects: a trace of calls, and a result or an exception\<close>

datatype stage = Resolver | Parser | Renderer

text \<open>
  What a run does that can be seen from outside: entering one of the three pipeline
  functions, the HTTP request (URL and timeout), and the calls on the Streamlit page.
  \<open>St_success v\<close> stands for \<^verbatim>\<open>st.success(f"Done! Found SMILES: `{v}`")\<close>.
\<close>

datatype event =
    Invoke stage
  | Requests_get string nat
  | St_spinner string
  | St_error string
  | St_success pyval
  | St_image string string
  | St_download_button string string string

type_synonym 'a run = "event list \<times> (py_exn + 'a)"

definition ret :: "'a \<Rightarrow> 'a run" where
  "ret x = ([], Inr x)"

definition raise :: "py_exn \<Rightarrow> 'a run" where
  "raise e = ([], Inl e)"

definition emit :: "event \<Rightarrow> unit run" where
  "emit ev = ([ev], Inr ())"

definition lift :: "py_exn + 'a \<Rightarrow> 'a run" where
  "lift r = ([], r)"

definition bind :: "'a run \<Rightarrow> ('a \<Rightarrow> 'b run) \<Rightarrow> 'b run" where
  "bind m f = (case m of
      (t, Inl e) \<Rightarrow> (t, Inl e)
    | (t, Inr x) \<Rightarrow> (case f x of (t', r) \<Rightarrow> (t @ t', r)))"

definition result :: "'a run \<Rightarrow> py_exn + 'a" where
  "result m = snd m"

definition trace :: "'a run \<Rightarrow> event list" where
  "trace m = fst m"

section \<open>The libraries the program calls\<close>

record response =
  status_code :: nat
  json_body :: "pyval option"

text \<open>
  The outside world is a parameter. \<open>requests_get\<close> answers a URL with a response or with the
  exception \<^verbatim>\<open>requests.get\<close> raises; \<open>json_body\<close> is \<open>None\<close> when \<^verbatim>\<open>r.json()\<close> cannot decode
  the body.

  Of RDKit, \<^verbatim>\<open>Chem.MolFromSmiles\<close> reports a string it cannot parse by returning \<^verbatim>\<open>None\<close>,
  and \<^verbatim>\<open>Chem.SanitizeMol\<close> reports a molecule it cannot sanitize by raising, which is \<open>None\<close>
  in \<open>SanitizeMol\<close>; both it and \<^verbatim>\<open>Compute2DCoords\<close> change the molecule in place, and the
  model returns the changed one. The drawing calls \<^verbatim>\<open>PrepareAndDrawMolecule\<close> and
  \<^verbatim>\<open>GetDrawingText\<close> complete or raise, as the library decides for the canvas and the
  molecule it is given. \<open>'m\<close> is RDKit's molecule.
\<close>

record 'm drawer =
  canvas_width :: int
  canvas_height :: int
  clearBackground :: bool
  bw_atom_palette :: bool
  drawn :: "('m \<times> string) option"
  finished :: bool

record 'm env =
  requests_get :: "string \<Rightarrow> request_exception + response"
  MolFromSmiles :: "string \<Rightarrow> 'm option"
  SanitizeMol :: "'m \<Rightarrow> 'm option"
  Compute2DCoords :: "'m \<Rightarrow> 'm"
  PrepareAndDrawMolecule :: "'m drawer \<Rightarrow> 'm \<Rightarrow> string \<Rightarrow> py_exn + unit"
  GetDrawingText :: "'m drawer \<Rightarrow> py_exn + string"

text \<open>
  \<^verbatim>\<open>urllib.parse.quote_plus\<close>, on the bytes of the name. The name comes from the form, so it
  has a UTF-8 encoding and the call completes.
\<close>

definition always_safe :: "char \<Rightarrow> bool" where
  "always_safe c =
     (c \<in> set ''ABCDEFGHIJKLMNOPQRSTUVWXYZabcdefghijklmnopqrstuvwxyz0123456789_.-~'')"

definition hex_digit :: "nat \<Rightarrow> char" where
  "hex_digit n = ''0123456789ABCDEF'' ! (n mod 16)"

definition quote_byte :: "char \<Rightarrow> string" where
  "quote_byte c =
     (if c = CHR '' '' then ''+''
      else if always_safe c then [c]
      else [CHR ''%'', hex_digit (of_char c div 16), hex_digit (of_char c)])"

definition quote_plus :: "string \<Rightarrow> string" where
  "quote_plus s = concat (map quote_byte s)"

text \<open>\<^verbatim>\<open>r.raise_for_status()\<close>: an \<^verbatim>\<open>HTTPError\<close> for a 4xx or 5xx status.\<close>

definition raise_for_status :: "response \<Rightarrow> py_exn + unit" where
  "raise_for_status r =
     (if 400 \<le> status_code r \<and> status_code r < 600
      then Inl (RequestException (HTTPError (status_code r))) else Inr ())"

definition response_json :: "response \<Rightarrow> py_exn + pyval" where
  "response_json r =
     (case json_body r of
        None \<Rightarrow> Inl (RequestException JSONDecodeError)
      | Some data \<Rightarrow> Inr data)"

section \<open>1) ChEMBL API\<close>

definition chembl_search :: string where
  "chembl_search = ''https://www.ebi.ac.uk/chembl/api/data/molecule/search.json?q=''"

text \<open>The first \<^verbatim>\<open>try\<close> body: the request and the status check.\<close>

definition fetch :: "'m env \<Rightarrow> string \<Rightarrow> response run" where
  "fetch env url =
     bind (emit (Requests_get url 30)) (\<lambda>_.
       case requests_get env url of
         Inl e \<Rightarrow> raise (RequestException e)
       | Inr r \<Rightarrow> bind (lift (raise_for_status r)) (\<lambda>_. ret r))"

text \<open>The \<^verbatim>\<open>for h in hits\<close> loop, with the \<^verbatim>\<open>return None\<close> that follows it.\<close>

fun scan_hits :: "pyval list \<Rightarrow> py_exn + pyval" where
  "scan_hits [] = Inr PNone"
| "scan_hits (h # hits) =
     (case py_get h ''molecule_structures'' of
        Inl e \<Rightarrow> Inl e
      | Inr v \<Rightarrow>
          (case py_get (py_or v (PDict [])) ''canonical_smiles'' of
             Inl e \<Rightarrow> Inl e
           | Inr smiles \<Rightarrow> if truthy smiles then Inr smiles else scan_hits hits))"

text \<open>The second \<^verbatim>\<open>try\<close> body.\<close>

definition decode_and_scan :: "response \<Rightarrow> py_exn + pyval" where
  "decode_and_scan r =
     (case response_json r of
        Inl e \<Rightarrow> Inl e
      | Inr data \<Rightarrow>
          (case py_get data ''molecules'' of
             Inl e \<Rightarrow> Inl e
           | Inr v \<Rightarrow>
               (case py_iter (py_or v (PList [])) of
                  Inl e \<Rightarrow> Inl e
                | Inr hits \<Rightarrow> scan_hits hits)))"

text \<open>
  \<^verbatim>\<open>get_smiles_from_chembl\<close>: each \<^verbatim>\<open>except\<close> clause turns the exceptions of its class into
  the return value \<^verbatim>\<open>None\<close> and lets any other pass.
\<close>

definition get_smiles_from_chembl :: "'m env \<Rightarrow> string \<Rightarrow> pyval run" where
  "get_smiles_from_chembl env name =
     bind (emit (Invoke Resolver)) (\<lambda>_.
       let url = chembl_search @ quote_plus name in
       case fetch env url of
         (t, Inl e) \<Rightarrow> if is_RequestException e then (t, Inr PNone) else (t, Inl e)
       | (t, Inr r) \<Rightarrow>
           (case decode_and_scan r of
              Inl e \<Rightarrow> if is_Exception e then (t, Inr PNone) else (t, Inl e)
            | Inr v \<Rightarrow> (t, Inr v)))"

section \<open>2) SMILES to mol\<close>

text \<open>
  The argument is whatever the resolver returned, so it is a Python value.
  \<^verbatim>\<open>Chem.MolFromSmiles\<close> raises \<^verbatim>\<open>TypeError\<close> on anything that is not a string, and
  \<^verbatim>\<open>UnicodeEncodeError\<close> on a string that holds a surrogate code point, which it cannot pass
  on as UTF-8.
\<close>

fun has_surrogate :: "string \<Rightarrow> bool" where
  "has_surrogate (c # d # s) =
     ((c = CHR 0xED \<and> (0xA0 :: nat) \<le> of_char d \<and> (of_char d :: nat) \<le> 0xBF)
      \<or> has_surrogate (d # s))"
| "has_surrogate _ = False"

definition chem_MolFromSmiles :: "'m env \<Rightarrow> pyval \<Rightarrow> py_exn + 'm option" where
  "chem_MolFromSmiles env v =
     (case v of
        PStr s \<Rightarrow> if has_surrogate s then Inl UnicodeEncodeError else Inr (MolFromSmiles env s)
      | _ \<Rightarrow> Inl TypeError)"

definition chem_SanitizeMol :: "'m env \<Rightarrow> 'm \<Rightarrow> py_exn + 'm" where
  "chem_SanitizeMol env mol =
     (case SanitizeMol env mol of None \<Rightarrow> Inl MolSanitizeException | Some mol' \<Rightarrow> Inr mol')"

definition smiles_to_mol :: "'m env \<Rightarrow> pyval \<Rightarrow> 'm option run" where
  "smiles_to_mol env smiles =
     bind (emit (Invoke Parser)) (\<lambda>_. lift
       (if \<not> truthy smiles then Inr None
        else
          case chem_MolFromSmiles env smiles of
            Inl e \<Rightarrow> Inl e
          | Inr None \<Rightarrow> Inr None
          | Inr (Some mol) \<Rightarrow>
              (case chem_SanitizeMol env mol of
                 Inl e \<Rightarrow> Inl e
               | Inr mol' \<Rightarrow> Inr (Some (Compute2DCoords env mol')))))"

section \<open>3) Generate image\<close>

text \<open>
  The constructor takes its two sizes as C ints: a Python int outside their range raises
  \<^verbatim>\<open>OverflowError\<close> when it is converted.
\<close>

definition fits_c_int :: "int \<Rightarrow> bool" where
  "fits_c_int n = (- (2 ^ 31) \<le> n \<and> n < 2 ^ 31)"

definition MolDraw2DCairo :: "int \<Rightarrow> int \<Rightarrow> py_exn + 'm drawer" where
  "MolDraw2DCairo w h =
     (if fits_c_int w \<and> fits_c_int h then
        Inr \<lparr>canvas_width = w, canvas_height = h, clearBackground = True,
             bw_atom_palette = False, drawn = None, finished = False\<rparr>
      else Inl OverflowError)"

definition mol_to_png_bytes ::
  "'m env \<Rightarrow> 'm option \<Rightarrow> string \<Rightarrow> int \<times> int \<Rightarrow> string option run" where
  "mol_to_png_bytes env mol legend wh =
     bind (emit (Invoke Renderer)) (\<lambda>_. lift
       (case mol of
          None \<Rightarrow> Inr None
        | Some m \<Rightarrow>
            (case wh of (w, h) \<Rightarrow>
               (case MolDraw2DCairo w h of
                  Inl e \<Rightarrow> Inl e
                | Inr drawer \<Rightarrow>
                    let drawer = drawer\<lparr>clearBackground := False\<rparr>;
                        drawer = drawer\<lparr>bw_atom_palette := True\<rparr>
                    in
                      (case PrepareAndDrawMolecule env drawer m legend of
                         Inl e \<Rightarrow> Inl e
                       | Inr _ \<Rightarrow>
                           let drawer = drawer\<lparr>drawn := Some (m, legend)\<rparr>;
                               drawer = drawer\<lparr>finished := True\<rparr>
                           in
                             (case GetDrawingText env drawer of
                                Inl e \<Rightarrow> Inl e
                              | Inr png \<Rightarrow> Inr (Some png)))))))"

section \<open>4) Streamlit UI: the submitted form\<close>

text \<open>
  \<^verbatim>\<open>str.strip()\<close> removes the white space of Python from both ends. On UTF-8 bytes the
  white-space characters are these encodings (U+0009 to U+000D, U+001C to U+0020, U+0085,
  U+00A0, U+1680, U+2000 to U+200A, U+2028, U+2029, U+202F, U+205F, U+3000).
\<close>

definition py_whitespace :: "string list" where
  "py_whitespace =
     [[CHR 0x09], [CHR 0x0A], [CHR 0x0B], [CHR 0x0C], [CHR 0x0D],
      [CHR 0x1C], [CHR 0x1D], [CHR 0x1E], [CHR 0x1F], [CHR 0x20],
      [CHR 0xC2, CHR 0x85], [CHR 0xC2, CHR 0xA0],
      [CHR 0xE1, CHR 0x9A, CHR 0x80],
      [CHR 0xE2, CHR 0x80, CHR 0x80], [CHR 0xE2, CHR 0x80, CHR 0x81],
      [CHR 0xE2, CHR 0x80, CHR 0x82], [CHR 0xE2, CHR 0x80, CHR 0x83],
      [CHR 0xE2, CHR 0x80, CHR 0x84], [CHR 0xE2, CHR 0x80, CHR 0x85],
      [CHR 0xE2, CHR 0x80, CHR 0x86], [CHR 0xE2, CHR 0x80, CHR 0x87],
      [CHR 0xE2, CHR 0x80, CHR 0x88], [CHR 0xE2, CHR 0x80, CHR 0x89],
      [CHR 0xE2, CHR 0x80, CHR 0x8A],
      [CHR 0xE2, CHR 0x80, CHR 0xA8], [CHR 0xE2, CHR 0x80, CHR 0xA9],
      [CHR 0xE2, CHR 0x80, CHR 0xAF],
      [CHR 0xE2, CHR 0x81, CHR 0x9F],
      [CHR 0xE3, CHR 0x80, CHR 0x80]]"

definition leading :: "string list \<Rightarrow> string \<Rightarrow> string option" where
  "leading tbl s = find (\<lambda>e. e \<noteq> [] \<and> take (length e) s = e) tbl"

function strip_left :: "string list \<Rightarrow> string \<Rightarrow> string" where
  "strip_left tbl s =
     (case leading tbl s of
        None \<Rightarrow> s
      | Some e \<Rightarrow> strip_left tbl (drop (length e) s))"
  by pat_completeness auto
termination
proof (relation "measure (\<lambda>(tbl, s). length s)")
  show "wf (measure (\<lambda>(tbl :: string list, s :: string). length s))"
    by simp
next
  fix tbl :: "string list" and s e :: string
  assume "leading tbl s = Some e"
  then have nonempty: "e \<noteq> []" and prefix: "take (length e) s = e"
    by (auto simp: leading_def find_Some_iff)
  have "length (take (length e) s) = length e"
    using prefix by simp
  then have "length e \<le> length s"
    by simp
  moreover have "0 < length e"
    using nonempty by simp
  ultimately have "length s - length e < length s"
    by arith
  then show "((tbl, drop (length e) s), (tbl, s)) \<in> measure (\<lambda>(tbl, s). length s)"
    by simp
qed

declare strip_left.simps [simp del]

definition strip :: "string \<Rightarrow> string" where
  "strip s = rev (strip_left (map rev py_whitespace) (rev (strip_left py_whitespace s)))"

definition st_stop :: "unit run" where
  "st_stop = raise StopException"

definition spinner_text :: string where
  "spinner_text = ''Searching in ChEMBL and drawing'' @ [CHR 0xE2, CHR 0x80, CHR 0xA6]"

definition msg_no_name :: string where
  "msg_no_name = ''Please type the molecule name you want to draw (in English).''"

definition msg_not_found :: string where
  "msg_not_found = ''The compound was not found in ChEMBL or there was a network problem.''"

definition msg_invalid :: string where
  "msg_invalid = ''Invalid SMILES.''"

definition msg_no_image :: string where
  "msg_no_image = ''The image could not be generated.''"

text \<open>
  The body of \<^verbatim>\<open>if submitted:\<close>, on the four fields of the form. The widths come from
  integer number inputs, so \<^verbatim>\<open>int(width)\<close> is \<open>width\<close>.
\<close>

definition on_submit :: "'m env \<Rightarrow> string \<Rightarrow> int \<Rightarrow> int \<Rightarrow> string \<Rightarrow> unit run" where
  "on_submit env name width height legend =
     (if strip name = [] then
        bind (emit (St_error msg_no_name)) (\<lambda>_. st_stop)
      else
        bind (emit (St_spinner spinner_text)) (\<lambda>_.
        bind (get_smiles_from_chembl env (strip name)) (\<lambda>smiles.
          if \<not> truthy smiles then
            bind (emit (St_error msg_not_found)) (\<lambda>_. st_stop)
          else
            bind (smiles_to_mol env smiles) (\<lambda>mol.
              if mol = None then
                bind (emit (St_error msg_invalid)) (\<lambda>_. st_stop)
              else
                bind (mol_to_png_bytes env mol legend (width, height)) (\<lambda>png_bytes.
                  case png_bytes of
                    None \<Rightarrow> bind (emit (St_error msg_no_image)) (\<lambda>_. st_stop)
                  | Some png \<Rightarrow>
                      if png = [] then
                        bind (emit (St_error msg_no_image)) (\<lambda>_. st_stop)
                      else
                        bind (emit (St_success smiles)) (\<lambda>_.
                        bind (emit (St_image png legend)) (\<lambda>_.
                        emit (St_download_button png (strip name @ ''.png'')
                                ''image/png''))))))))"

section \<open>Vocabulary of the specification\<close>

text \<open>
  A candidate record is a JSON object whose \<^verbatim>\<open>molecule_structures\<close> member, where it has one,
  is an object or a false value such as \<^verbatim>\<open>null\<close>. Its canonical structural field is the
  \<^verbatim>\<open>canonical_smiles\<close> member of that object, \<^verbatim>\<open>None\<close> where there is none; a candidate carries
  the field when the field is non-empty, that is, true in Python's sense.
\<close>

definition canonical_field :: "pyval \<Rightarrow> pyval" where
  "canonical_field h =
     (case h of
        PDict kv \<Rightarrow>
          (case map_of kv ''molecule_structures'' of
             Some (PDict ms) \<Rightarrow>
               (case map_of ms ''canonical_smiles'' of Some v \<Rightarrow> v | None \<Rightarrow> PNone)
           | _ \<Rightarrow> PNone)
      | _ \<Rightarrow> PNone)"

definition carries_smiles :: "pyval \<Rightarrow> bool" where
  "carries_smiles h = truthy (canonical_field h)"

definition candidate_record :: "pyval \<Rightarrow> bool" where
  "candidate_record h =
     (case h of
        PDict kv \<Rightarrow>
          (case map_of kv ''molecule_structures'' of
             None \<Rightarrow> True
           | Some (PDict ms) \<Rightarrow> True
           | Some v \<Rightarrow> \<not> truthy v)
      | _ \<Rightarrow> False)"

text \<open>A name is empty or white space only when it is a sequence of white-space characters.\<close>

inductive whitespace_only :: "string \<Rightarrow> bool" where
  blank: "whitespace_only []"
| space: "e \<in> set py_whitespace \<Longrightarrow> whitespace_only s \<Longrightarrow> whitespace_only (e @ s)"

text \<open>The pipeline functions a run entered, in the order it entered them.\<close>

fun stages_of :: "event list \<Rightarrow> stage list" where
  "stages_of [] = []"
| "stages_of (Invoke s # t) = s # stages_of t"
| "stages_of (_ # t) = stages_of t"

text \<open>
  The drawer as \<^verbatim>\<open>mol_to_png_bytes\<close> hands it to the library: a canvas of the requested size
  with the background left uncleared and the black-and-white palette, before the molecule
  is drawn and after the drawing is finished.
\<close>

definition styled_canvas :: "int \<Rightarrow> int \<Rightarrow> 'm drawer" where
  "styled_canvas w h =
     \<lparr>canvas_width = w, canvas_height = h, clearBackground = False,
      bw_atom_palette = True, drawn = None, finished = False\<rparr>"

definition finished_canvas :: "int \<Rightarrow> int \<Rightarrow> 'm \<Rightarrow> string \<Rightarrow> 'm drawer" where
  "finished_canvas w h m legend =
     \<lparr>canvas_width = w, canvas_height = h, clearBackground = False,
      bw_atom_palette = True, drawn = Some (m, legend), finished = True\<rparr>"

section \<open>Fixtures\<close>

text \<open>
  A world that gives one reply to every request, with a toy RDKit whose molecules are the
  strings they were read from. It knows three strings: ethanol and methane, which it
  parses and sanitizes, and \<^verbatim>\<open>P1N~o1\<close>, which it parses and whose molecule its sanitizer
  rejects, as is observed of RDKit. Its drawer fails on the empty canvas. The reply has the
  shape of ChEMBL's search results.
\<close>

definition world :: "(request_exception + response) \<Rightarrow> string env" where
  "world reply =
     \<lparr>requests_get = (\<lambda>url. reply),
      MolFromSmiles = (\<lambda>s. if s \<in> {''CCO'', ''C'', ''P1N~o1''} then Some s else None),
      SanitizeMol = (\<lambda>m. if m = ''P1N~o1'' then None else Some m),
      Compute2DCoords = (\<lambda>m. m),
      PrepareAndDrawMolecule = (\<lambda>d m legend. Inr ()),
      GetDrawingText = (\<lambda>d. if canvas_width d = 0 \<and> canvas_height d = 0
                                then Inl RuntimeError else Inr ''PNG'')\<rparr>"

definition ethanol_candidates :: "pyval list" where
  "ethanol_candidates =
     [PDict [(''molecule_chembl_id'', PStr ''CHEMBL1''), (''molecule_structures'', PNone)],
      PDict [(''molecule_structures'', PDict [(''canonical_smiles'', PStr ''CCO'')])],
      PDict [(''molecule_structures'', PDict [(''canonical_smiles'', PStr ''CCN'')])]]"

definition ethanol_response :: response where
  "ethanol_response =
     \<lparr>status_code = 200, json_body = Some (PDict [(''molecules'', PList ethanol_candidates)])\<rparr>"

section \<open>The resolver\<close>

subsection \<open>What each part can raise\<close>

lemma fetch_unfold:
  "fetch env url =
     ([Requests_get url 30],
      case requests_get env url of
        Inl e \<Rightarrow> Inl (RequestException e)
      | Inr r \<Rightarrow>
          if 400 \<le> status_code r \<and> status_code r < 600
          then Inl (RequestException (HTTPError (status_code r))) else Inr r)"
  by (simp add: fetch_def bind_def emit_def raise_def lift_def ret_def raise_for_status_def
      split: sum.splits)

lemma fetch_raises: "result (fetch env url) = Inl e \<Longrightarrow> is_RequestException e"
  by (auto simp: fetch_unfold result_def split: sum.splits if_splits)

lemma py_get_raises: "py_get v k = Inl e \<Longrightarrow> e = AttributeError"
  by (cases v) auto

lemma py_iter_raises: "py_iter v = Inl e \<Longrightarrow> e = TypeError"
  by (cases v) auto

lemma scan_hits_raises: "scan_hits hits = Inl e \<Longrightarrow> e = AttributeError"
  by (induction hits) (auto split: sum.splits if_splits dest: py_get_raises)

lemma decode_and_scan_raises: "decode_and_scan r = Inl e \<Longrightarrow> is_Exception e"
  by (auto simp: decode_and_scan_def response_json_def split: sum.splits option.splits
      dest!: py_get_raises py_iter_raises scan_hits_raises)

text \<open>
  With both handlers resolved: the request is the only effect, and every exception of
  either \<^verbatim>\<open>try\<close> body ends in the return value \<^verbatim>\<open>None\<close>.
\<close>

lemma get_smiles_unfold:
  "get_smiles_from_chembl env name =
     ([Invoke Resolver, Requests_get (chembl_search @ quote_plus name) 30],
      case requests_get env (chembl_search @ quote_plus name) of
        Inl e \<Rightarrow> Inr PNone
      | Inr r \<Rightarrow>
          if 400 \<le> status_code r \<and> status_code r < 600 then Inr PNone
          else (case decode_and_scan r of Inl e \<Rightarrow> Inr PNone | Inr v \<Rightarrow> Inr v))"
proof -
  have caught: "\<And>r e. decode_and_scan r = Inl e \<Longrightarrow> is_Exception e"
    by (rule decode_and_scan_raises)
  show ?thesis
    unfolding get_smiles_from_chembl_def Let_def fetch_unfold
    by (simp add: bind_def emit_def caught split: sum.splits)
qed

lemma resolver_trace:
  "trace (get_smiles_from_chembl env name) =
     [Invoke Resolver, Requests_get (chembl_search @ quote_plus name) 30]"
  by (simp add: get_smiles_unfold trace_def)

subsection \<open>The loop over the candidates\<close>

lemma scan_hits_step_match:
  "candidate_record h \<Longrightarrow> carries_smiles h \<Longrightarrow> scan_hits (h # hits) = Inr (canonical_field h)"
  by (auto simp: candidate_record_def carries_smiles_def canonical_field_def py_or_def
      split: pyval.splits option.splits)

lemma scan_hits_step_skip:
  "candidate_record h \<Longrightarrow> \<not> carries_smiles h \<Longrightarrow> scan_hits (h # hits) = scan_hits hits"
  by (auto simp: candidate_record_def carries_smiles_def canonical_field_def py_or_def
      split: pyval.splits option.splits)

lemma scan_hits_records:
  "list_all candidate_record hits \<Longrightarrow>
   scan_hits hits =
     Inr (case find carries_smiles hits of None \<Rightarrow> PNone | Some h \<Rightarrow> canonical_field h)"
proof (induction hits)
  case Nil
  then show ?case by simp
next
  case (Cons h hits)
  then have rec: "candidate_record h" and rest: "list_all candidate_record hits"
    by simp_all
  show ?case
  proof (cases "carries_smiles h")
    case True
    with rec show ?thesis
      by (simp add: scan_hits_step_match del: scan_hits.simps)
  next
    case False
    with rec rest Cons.IH show ?thesis
      by (simp add: scan_hits_step_skip del: scan_hits.simps)
  qed
qed

text \<open>Whatever the shape of the list, a value the loop returns is the field of a candidate.\<close>

lemma scan_hits_value:
  "scan_hits hits = Inr v \<Longrightarrow>
   v = PNone \<or> (\<exists>h \<in> set hits. carries_smiles h \<and> v = canonical_field h)"
proof (induction hits)
  case Nil
  then show ?case by simp
next
  case (Cons h hits)
  show ?case
  proof (cases "candidate_record h \<and> carries_smiles h")
    case True
    then have "scan_hits (h # hits) = Inr (canonical_field h)"
      by (simp add: scan_hits_step_match del: scan_hits.simps)
    with Cons.prems True show ?thesis by simp
  next
    case False
    then have "scan_hits (h # hits) = scan_hits hits \<or> (\<exists>e. scan_hits (h # hits) = Inl e)"
      by (auto simp: candidate_record_def carries_smiles_def canonical_field_def py_or_def
          split: pyval.splits option.splits)
    with Cons show ?thesis by auto
  qed
qed

lemma scan_hits_truthy: "scan_hits hits = Inr v \<Longrightarrow> v = PNone \<or> truthy v"
  by (induction hits) (auto split: sum.splits if_splits)

lemma scan_hits_no_carrier:
  assumes "find carries_smiles hits = None"
  shows "scan_hits hits = Inr PNone \<or> scan_hits hits = Inl AttributeError"
proof (cases "scan_hits hits")
  case (Inl e)
  then show ?thesis by (simp add: scan_hits_raises)
next
  case (Inr v)
  from assms have "\<forall>h \<in> set hits. \<not> carries_smiles h"
    by (simp add: find_None_iff)
  with scan_hits_value [OF Inr] have "v = PNone" by blast
  with Inr show ?thesis by simp
qed

lemma decode_and_scan_list:
  "json_body r = Some (PDict d) \<Longrightarrow> map_of d ''molecules'' = Some (PList hits) \<Longrightarrow>
   decode_and_scan r = scan_hits hits"
  by (cases hits) (simp_all add: decode_and_scan_def response_json_def py_or_def)

lemma decode_and_scan_truthy: "decode_and_scan r = Inr v \<Longrightarrow> v = PNone \<or> truthy v"
  by (auto simp: decode_and_scan_def split: sum.splits dest: scan_hits_truthy)

subsection \<open>The first candidate with a structure\<close>

text \<open>
  Claim C1. When the request succeeds and the decoded response holds a list of candidate
  records under \<^verbatim>\<open>molecules\<close>, the resolver returns the canonical structural field of the
  first candidate, in the order of the list, whose field is non-empty; when the list is
  empty or no candidate carries the field, it returns \<^verbatim>\<open>None\<close>.
\<close>

theorem resolve_first_candidate:
  assumes "requests_get env (chembl_search @ quote_plus name) = Inr r"
    and "\<not> (400 \<le> status_code r \<and> status_code r < 600)"
    and "json_body r = Some (PDict d)"
    and "map_of d ''molecules'' = Some (PList hits)"
    and "list_all candidate_record hits"
  shows "result (get_smiles_from_chembl env name) =
         Inr (case find carries_smiles hits of None \<Rightarrow> PNone | Some h \<Rightarrow> canonical_field h)"
proof -
  have "decode_and_scan r = scan_hits hits"
    using assms(3,4) by (rule decode_and_scan_list)
  also have "\<dots> = Inr (case find carries_smiles hits of None \<Rightarrow> PNone
                         | Some h \<Rightarrow> canonical_field h)"
    using assms(5) by (rule scan_hits_records)
  finally show ?thesis
    using assms(1,2) by (auto simp: get_smiles_unfold result_def)
qed

text \<open>
  On a reply whose first candidate has no structures and whose second and third have
  one, the second's is returned.
\<close>

theorem resolve_first_candidate_witness:
  "result (get_smiles_from_chembl (world (Inr ethanol_response)) ''ethanol'') = Inr (PStr ''CCO'')"
  using resolve_first_candidate [of "world (Inr ethanol_response)" "''ethanol''" ethanol_response
      "[(''molecules'', PList ethanol_candidates)]" ethanol_candidates]
  by (simp add: world_def ethanol_response_def ethanol_candidates_def candidate_record_def
      carries_smiles_def canonical_field_def)

subsection \<open>No exception leaves the resolver\<close>

text \<open>
  Claim C2. The resolver always returns a value and never raises. A request that raises
  (a timeout, a connection error), a 4xx or 5xx status, a body that cannot be decoded,
  and a candidate list in which no candidate carries a structure all give \<^verbatim>\<open>None\<close>.
\<close>

theorem resolve_never_raises:
  "(\<exists>v. result (get_smiles_from_chembl env name) = Inr v) \<and>
   (\<forall>e. requests_get env (chembl_search @ quote_plus name) = Inl e \<longrightarrow>
        result (get_smiles_from_chembl env name) = Inr PNone) \<and>
   (\<forall>r. requests_get env (chembl_search @ quote_plus name) = Inr r \<and>
        400 \<le> status_code r \<and> status_code r < 600 \<longrightarrow>
        result (get_smiles_from_chembl env name) = Inr PNone) \<and>
   (\<forall>r. requests_get env (chembl_search @ quote_plus name) = Inr r \<and> json_body r = None \<longrightarrow>
        result (get_smiles_from_chembl env name) = Inr PNone) \<and>
   (\<forall>r d hits. requests_get env (chembl_search @ quote_plus name) = Inr r \<and>
        json_body r = Some (PDict d) \<and> map_of d ''molecules'' = Some (PList hits) \<and>
        find carries_smiles hits = None \<longrightarrow>
        result (get_smiles_from_chembl env name) = Inr PNone)"
proof (intro conjI allI impI)
  show "\<exists>v. result (get_smiles_from_chembl env name) = Inr v"
    by (simp add: get_smiles_unfold result_def split: sum.splits)
next
  fix e assume "requests_get env (chembl_search @ quote_plus name) = Inl e"
  then show "result (get_smiles_from_chembl env name) = Inr PNone"
    by (simp add: get_smiles_unfold result_def)
next
  fix r assume "requests_get env (chembl_search @ quote_plus name) = Inr r \<and>
        400 \<le> status_code r \<and> status_code r < 600"
  then show "result (get_smiles_from_chembl env name) = Inr PNone"
    by (simp add: get_smiles_unfold result_def)
next
  fix r assume "requests_get env (chembl_search @ quote_plus name) = Inr r \<and> json_body r = None"
  then show "result (get_smiles_from_chembl env name) = Inr PNone"
    by (simp add: get_smiles_unfold result_def decode_and_scan_def response_json_def)
next
  fix r d hits
  assume a: "requests_get env (chembl_search @ quote_plus name) = Inr r \<and>
        json_body r = Some (PDict d) \<and> map_of d ''molecules'' = Some (PList hits) \<and>
        find carries_smiles hits = None"
  then have "decode_and_scan r = scan_hits hits"
    by (simp add: decode_and_scan_list)
  moreover have "scan_hits hits = Inr PNone \<or> scan_hits hits = Inl AttributeError"
    using a by (simp add: scan_hits_no_carrier)
  ultimately show "result (get_smiles_from_chembl env name) = Inr PNone"
    using a by (auto simp: get_smiles_unfold result_def)
qed

text \<open>
  A timeout, a refused connection, a 503, an undecodable body, and a list whose only
  entry is \<^verbatim>\<open>null\<close>.
\<close>

theorem resolve_never_raises_witness:
  "result (get_smiles_from_chembl (world (Inl Timeout)) ''ethanol'') = Inr PNone \<and>
   result (get_smiles_from_chembl (world (Inl ConnectionError)) ''ethanol'') = Inr PNone \<and>
   result (get_smiles_from_chembl
     (world (Inr \<lparr>status_code = 503, json_body = None\<rparr>)) ''ethanol'') = Inr PNone \<and>
   result (get_smiles_from_chembl
     (world (Inr \<lparr>status_code = 200, json_body = None\<rparr>)) ''ethanol'') = Inr PNone \<and>
   result (get_smiles_from_chembl
     (world (Inr \<lparr>status_code = 200, json_body = Some (PDict [(''molecules'', PList [PNone])])\<rparr>))
     ''ethanol'') = Inr PNone"
  using resolve_never_raises [of "world (Inl Timeout)" "''ethanol''"]
    resolve_never_raises [of "world (Inl ConnectionError)" "''ethanol''"]
    resolve_never_raises [of "world (Inr \<lparr>status_code = 503, json_body = None\<rparr>)" "''ethanol''"]
    resolve_never_raises [of "world (Inr \<lparr>status_code = 200, json_body = None\<rparr>)" "''ethanol''"]
    resolve_never_raises [of "world (Inr \<lparr>status_code = 200,
       json_body = Some (PDict [(''molecules'', PList [PNone])])\<rparr>)" "''ethanol''"]
  by (simp add: world_def carries_smiles_def canonical_field_def)


section \<open>The parser\<close>

lemma smiles_to_mol_unfold:
  "smiles_to_mol env smiles =
     ([Invoke Parser],
      if \<not> truthy smiles then Inr None
      else
        case chem_MolFromSmiles env smiles of
          Inl e \<Rightarrow> Inl e
        | Inr None \<Rightarrow> Inr None
        | Inr (Some mol) \<Rightarrow>
            (case chem_SanitizeMol env mol of
               Inl e \<Rightarrow> Inl e
             | Inr mol' \<Rightarrow> Inr (Some (Compute2DCoords env mol'))))"
  by (simp add: smiles_to_mol_def bind_def emit_def lift_def)

text \<open>
  Claim C3 does not hold of the code. It has every parse or sanitize error end in \<^verbatim>\<open>None\<close>
  and no exception leave \<^verbatim>\<open>smiles_to_mol\<close>, as the docstring of the function also says
  (\<^verbatim>\<open>or None on failure\<close>). But the call of \<^verbatim>\<open>Chem.SanitizeMol\<close> stands outside any handler: for
  every string that \<^verbatim>\<open>Chem.MolFromSmiles\<close> accepts and whose molecule \<^verbatim>\<open>Chem.SanitizeMol\<close>
  rejects, the function does not return \<^verbatim>\<open>None\<close>; the sanitizer's exception leaves it.
\<close>

theorem sanitize_error_escapes:
  assumes "s \<noteq> []" and "\<not> has_surrogate s"
    and "MolFromSmiles env s = Some m0" and "SanitizeMol env m0 = None"
  shows "result (smiles_to_mol env (PStr s)) = Inl MolSanitizeException"
  using assms
  by (simp add: smiles_to_mol_unfold result_def chem_MolFromSmiles_def chem_SanitizeMol_def)

text \<open>The string \<^verbatim>\<open>P1N~o1\<close> is such a string.\<close>

theorem sanitize_error_escapes_witness:
  "result (smiles_to_mol (world (Inl Timeout)) (PStr ''P1N~o1'')) = Inl MolSanitizeException"
  using sanitize_error_escapes [of "''P1N~o1''" "world (Inl Timeout)" "''P1N~o1''"]
  by (simp add: world_def)

text \<open>
  Claim C4. A molecule is returned only for an encoding that parsed and sanitized: whenever
  \<^verbatim>\<open>smiles_to_mol\<close> returns a molecule, its argument is a non-empty string that
  \<^verbatim>\<open>Chem.MolFromSmiles\<close> accepted, \<^verbatim>\<open>Chem.SanitizeMol\<close> completed on the parsed molecule, and the
  molecule returned is that one with its coordinates. Where either step fails, no molecule
  is returned.
\<close>

theorem molecule_only_from_valid_encoding:
  assumes "result (smiles_to_mol env smiles) = Inr (Some mol)"
  shows "\<exists>s m0 m1. smiles = PStr s \<and> s \<noteq> [] \<and> MolFromSmiles env s = Some m0 \<and>
           SanitizeMol env m0 = Some m1 \<and> mol = Compute2DCoords env m1"
proof -
  from assms have t: "truthy smiles"
    by (auto simp: smiles_to_mol_unfold result_def split: if_splits)
  from assms t obtain s where s: "smiles = PStr s"
    by (cases smiles) (auto simp: smiles_to_mol_unfold result_def chem_MolFromSmiles_def)
  with t have "s \<noteq> []" by simp
  moreover from assms s obtain m0 m1 where
    "MolFromSmiles env s = Some m0" "SanitizeMol env m0 = Some m1" "mol = Compute2DCoords env m1"
    by (auto simp: smiles_to_mol_unfold result_def chem_MolFromSmiles_def chem_SanitizeMol_def
        split: option.splits if_splits)
  ultimately show ?thesis using s by blast
qed

theorem molecule_only_from_valid_encoding_witness:
  "\<exists>s m0 m1. PStr ''CCO'' = PStr s \<and> s \<noteq> [] \<and>
     MolFromSmiles (world (Inl Timeout)) s = Some m0 \<and>
     SanitizeMol (world (Inl Timeout)) m0 = Some m1 \<and>
     ''CCO'' = Compute2DCoords (world (Inl Timeout)) m1"
proof -
  have "result (smiles_to_mol (world (Inl Timeout)) (PStr ''CCO'')) = Inr (Some ''CCO'')"
    by (simp add: smiles_to_mol_unfold result_def chem_MolFromSmiles_def chem_SanitizeMol_def
        world_def)
  then show ?thesis by (rule molecule_only_from_valid_encoding)
qed

section \<open>The renderer\<close>

lemma mol_to_png_bytes_unfold:
  "mol_to_png_bytes env mol legend (w, h) =
     ([Invoke Renderer],
      case mol of
        None \<Rightarrow> Inr None
      | Some m \<Rightarrow>
          if \<not> (fits_c_int w \<and> fits_c_int h) then Inl OverflowError
          else
            (case PrepareAndDrawMolecule env (styled_canvas w h) m legend of
               Inl e \<Rightarrow> Inl e
             | Inr u \<Rightarrow>
                 (case GetDrawingText env (finished_canvas w h m legend) of
                    Inl e \<Rightarrow> Inl e
                  | Inr png \<Rightarrow> Inr (Some png))))"
  by (simp add: mol_to_png_bytes_def bind_def emit_def lift_def MolDraw2DCairo_def Let_def
      styled_canvas_def finished_canvas_def split: option.splits sum.splits)




section \<open>The submitted form\<close>

subsection \<open>White space\<close>

lemma leading_Nil: "leading tbl [] = None"
  by (auto simp: leading_def find_None_iff)

lemma strip_left_Nil: "strip_left tbl [] = []"
  by (subst strip_left.simps) (simp add: leading_Nil)

text \<open>No encoding in the table is the start of another, so the table finds what it is given.\<close>

lemma leading_whitespace_all:
  "list_all (\<lambda>e. \<forall>s. leading py_whitespace (e @ s) = Some e) py_whitespace"
  unfolding py_whitespace_def leading_def by simp

lemma leading_whitespace:
  "e \<in> set py_whitespace \<Longrightarrow> leading py_whitespace (e @ s) = Some e"
  using leading_whitespace_all by (simp add: list_all_iff)

text \<open>The predicate can be run: it reads the encodings off the front of the name.\<close>

lemma whitespace_only_blank [code_pred_intro]: "whitespace_only []"
  by (rule whitespace_only.blank)

lemma whitespace_only_leading [code_pred_intro]:
  assumes "leading py_whitespace s = Some e" and "whitespace_only (drop (length e) s)"
  shows "whitespace_only s"
proof -
  from assms(1) have "e \<in> set py_whitespace" and "take (length e) s = e"
    by (auto simp: leading_def find_Some_iff)
  moreover from this have "s = e @ drop (length e) s"
    by (metis append_take_drop_id)
  ultimately show ?thesis
    using assms(2) by (metis whitespace_only.space)
qed

code_pred whitespace_only
proof -
  case whitespace_only
  from whitespace_only.prems show thesis
  proof (cases rule: whitespace_only.cases)
    case blank
    then show ?thesis using whitespace_only(1) by simp
  next
    case (space e s)
    then have "leading py_whitespace x = Some e" and "whitespace_only (drop (length e) x)"
      by (simp_all add: leading_whitespace)
    then show ?thesis by (rule whitespace_only(2) [OF refl])
  qed
qed

lemma strip_left_whitespace:
  assumes "e \<in> set py_whitespace"
  shows "strip_left py_whitespace (e @ s) = strip_left py_whitespace s"
proof -
  have "strip_left py_whitespace (e @ s) = strip_left py_whitespace (drop (length e) (e @ s))"
    by (subst strip_left.simps) (simp add: leading_whitespace [OF assms])
  then show ?thesis by simp
qed

lemma whitespace_only_strip_left: "whitespace_only s \<Longrightarrow> strip_left py_whitespace s = []"
  by (induction rule: whitespace_only.induct) (simp_all add: strip_left_Nil strip_left_whitespace)

lemma whitespace_only_strip: "whitespace_only s \<Longrightarrow> strip s = []"
  by (simp add: strip_def whitespace_only_strip_left strip_left_Nil)

lemma strip_ethanol: "strip ''  ethanol '' = ''ethanol''"
  by code_simp

lemma whitespace_only_spaces: "whitespace_only ''   ''"
proof -
  have "whitespace_only ([CHR 0x20] @ [CHR 0x20] @ [CHR 0x20] @ [])"
    by (intro whitespace_only.intros) (simp_all add: py_whitespace_def)
  then show ?thesis by simp
qed

text \<open>A tab, a no-break space (U+00A0) and an ideographic space (U+3000).\<close>

lemma whitespace_only_unicode:
  "whitespace_only [CHR 0x09, CHR 0xC2, CHR 0xA0, CHR 0xE3, CHR 0x80, CHR 0x80]"
proof -
  have "whitespace_only ([CHR 0x09] @ [CHR 0xC2, CHR 0xA0] @ [CHR 0xE3, CHR 0x80, CHR 0x80] @ [])"
    by (intro whitespace_only.intros) (simp_all add: py_whitespace_def)
  then show ?thesis by simp
qed

subsection \<open>The run, stage by stage\<close>

lemma on_submit_blank:
  "strip name = [] \<Longrightarrow>
   on_submit env name width height legend = ([St_error msg_no_name], Inl StopException)"
  by (simp add: on_submit_def bind_def emit_def st_stop_def raise_def)

lemma on_submit_unfold:
  "strip name \<noteq> [] \<Longrightarrow>
   on_submit env name width height legend =
     (case result (get_smiles_from_chembl env (strip name)) of
        Inl e \<Rightarrow> (St_spinner spinner_text # trace (get_smiles_from_chembl env (strip name)), Inl e)
      | Inr smiles \<Rightarrow>
          if \<not> truthy smiles then
            (St_spinner spinner_text # trace (get_smiles_from_chembl env (strip name))
               @ [St_error msg_not_found], Inl StopException)
          else
            (case result (smiles_to_mol env smiles) of
               Inl e \<Rightarrow>
                 (St_spinner spinner_text # trace (get_smiles_from_chembl env (strip name))
                    @ [Invoke Parser], Inl e)
             | Inr None \<Rightarrow>
                 (St_spinner spinner_text # trace (get_smiles_from_chembl env (strip name))
                    @ [Invoke Parser, St_error msg_invalid], Inl StopException)
             | Inr (Some m) \<Rightarrow>
                 (case result (mol_to_png_bytes env (Some m) legend (width, height)) of
                    Inl e \<Rightarrow>
                      (St_spinner spinner_text # trace (get_smiles_from_chembl env (strip name))
                         @ [Invoke Parser, Invoke Renderer], Inl e)
                  | Inr png_bytes \<Rightarrow>
                      if png_bytes = None \<or> png_bytes = Some [] then
                        (St_spinner spinner_text # trace (get_smiles_from_chembl env (strip name))
                           @ [Invoke Parser, Invoke Renderer, St_error msg_no_image],
                         Inl StopException)
                      else
                        (St_spinner spinner_text # trace (get_smiles_from_chembl env (strip name))
                           @ [Invoke Parser, Invoke Renderer, St_success smiles,
                              St_image (the png_bytes) legend,
                              St_download_button (the png_bytes) (strip name @ ''.png'')
                                ''image/png''],
                         Inr ()))))"
  by (simp add: on_submit_def bind_def emit_def st_stop_def raise_def result_def trace_def
      smiles_to_mol_unfold mol_to_png_bytes_unfold
      split: prod.splits sum.splits option.splits)

lemma messages_differ:
  "msg_invalid \<noteq> msg_not_found" "msg_no_image \<noteq> msg_not_found"
  "msg_not_found \<noteq> msg_invalid" "msg_not_found \<noteq> msg_no_image"
  by (simp_all add: msg_invalid_def msg_not_found_def msg_no_image_def)


subsection \<open>Forward only, and stopping at the first stage that returns nothing\<close>

text \<open>
  Claim C8. For a submission with a name, the stages are entered in the order resolver,
  parser, renderer and none is entered twice. If the resolver returns \<^verbatim>\<open>None\<close>, neither the
  parser nor the renderer is invoked, the last thing the run does is report the lookup
  failure, and the run stops. If the parser returns \<^verbatim>\<open>None\<close>, the renderer is not invoked,
  the run reports the invalid structure and stops. If the renderer returns \<^verbatim>\<open>None\<close> or no
  bytes, the run reports the missing image and stops.
\<close>

theorem pipeline_short_circuits:
  assumes "strip name \<noteq> []"
  shows
    "(result (get_smiles_from_chembl env (strip name)) = Inr PNone \<longrightarrow>
        Invoke Parser \<notin> set (trace (on_submit env name width height legend)) \<and>
        Invoke Renderer \<notin> set (trace (on_submit env name width height legend)) \<and>
        last (trace (on_submit env name width height legend)) = St_error msg_not_found \<and>
        result (on_submit env name width height legend) = Inl StopException) \<and>
     (\<forall>smiles. result (get_smiles_from_chembl env (strip name)) = Inr smiles \<and> truthy smiles \<and>
        result (smiles_to_mol env smiles) = Inr None \<longrightarrow>
        Invoke Renderer \<notin> set (trace (on_submit env name width height legend)) \<and>
        last (trace (on_submit env name width height legend)) = St_error msg_invalid \<and>
        result (on_submit env name width height legend) = Inl StopException) \<and>
     (\<forall>smiles m png. result (get_smiles_from_chembl env (strip name)) = Inr smiles \<and>
        truthy smiles \<and> result (smiles_to_mol env smiles) = Inr (Some m) \<and>
        result (mol_to_png_bytes env (Some m) legend (width, height)) = Inr png \<and>
        (png = None \<or> png = Some []) \<longrightarrow>
        last (trace (on_submit env name width height legend)) = St_error msg_no_image \<and>
        result (on_submit env name width height legend) = Inl StopException) \<and>
     stages_of (trace (on_submit env name width height legend)) =
       take (length (stages_of (trace (on_submit env name width height legend))))
         [Resolver, Parser, Renderer]"
proof (intro conjI allI impI)
  assume "result (get_smiles_from_chembl env (strip name)) = Inr PNone"
  then have run: "on_submit env name width height legend =
      (St_spinner spinner_text # trace (get_smiles_from_chembl env (strip name))
         @ [St_error msg_not_found], Inl StopException)"
    using assms by (simp add: on_submit_unfold)
  show "Invoke Parser \<notin> set (trace (on_submit env name width height legend))"
    and "Invoke Renderer \<notin> set (trace (on_submit env name width height legend))"
    and "last (trace (on_submit env name width height legend)) = St_error msg_not_found"
    and "result (on_submit env name width height legend) = Inl StopException"
    by (simp_all add: run resolver_trace trace_def [of "(a, b)" for a b]
        result_def [of "(a, b)" for a b])
next
  fix smiles
  assume "result (get_smiles_from_chembl env (strip name)) = Inr smiles \<and> truthy smiles \<and>
        result (smiles_to_mol env smiles) = Inr None"
  then have run: "on_submit env name width height legend =
      (St_spinner spinner_text # trace (get_smiles_from_chembl env (strip name))
         @ [Invoke Parser, St_error msg_invalid], Inl StopException)"
    using assms by (simp add: on_submit_unfold)
  show "Invoke Renderer \<notin> set (trace (on_submit env name width height legend))"
    and "last (trace (on_submit env name width height legend)) = St_error msg_invalid"
    and "result (on_submit env name width height legend) = Inl StopException"
    by (simp_all add: run resolver_trace trace_def [of "(a, b)" for a b]
        result_def [of "(a, b)" for a b])
next
  fix smiles m png
  assume "result (get_smiles_from_chembl env (strip name)) = Inr smiles \<and>
        truthy smiles \<and> result (smiles_to_mol env smiles) = Inr (Some m) \<and>
        result (mol_to_png_bytes env (Some m) legend (width, height)) = Inr png \<and>
        (png = None \<or> png = Some [])"
  then have run: "on_submit env name width height legend =
      (St_spinner spinner_text # trace (get_smiles_from_chembl env (strip name))
         @ [Invoke Parser, Invoke Renderer, St_error msg_no_image], Inl StopException)"
    using assms by (auto simp: on_submit_unfold)
  show "last (trace (on_submit env name width height legend)) = St_error msg_no_image"
    and "result (on_submit env name width height legend) = Inl StopException"
    by (simp_all add: run resolver_trace trace_def [of "(a, b)" for a b]
        result_def [of "(a, b)" for a b])
next
  show "stages_of (trace (on_submit env name width height legend)) =
       take (length (stages_of (trace (on_submit env name width height legend))))
         [Resolver, Parser, Renderer]"
    using assms
    by (simp add: on_submit_unfold resolver_trace trace_def [of "(a, b)" for a b]
        split: sum.splits option.splits)
qed

text \<open>The resolver times out: the run ends with the lookup-failure message.\<close>

theorem pipeline_short_circuits_witness:
  "Invoke Parser \<notin> set (trace (on_submit (world (Inl Timeout)) ''  ethanol '' 1200 800 [])) \<and>
   Invoke Renderer \<notin> set (trace (on_submit (world (Inl Timeout)) ''  ethanol '' 1200 800 [])) \<and>
   last (trace (on_submit (world (Inl Timeout)) ''  ethanol '' 1200 800 [])) =
     St_error msg_not_found \<and>
   result (on_submit (world (Inl Timeout)) ''  ethanol '' 1200 800 []) = Inl StopException"
proof -
  have name: "strip ''  ethanol '' \<noteq> []"
    by (simp add: strip_ethanol)
  have "result (get_smiles_from_chembl (world (Inl Timeout)) (strip ''  ethanol '')) = Inr PNone"
    by (simp add: get_smiles_unfold result_def world_def)
  with pipeline_short_circuits [OF name, of "world (Inl Timeout)" 1200 800 "[]"]
  show ?thesis by blast
qed

subsection \<open>A blank name\<close>

text \<open>
  Claim C9. For a name that is empty or white space only, the run consists of the
  input-validation message and the stop: the resolver is not invoked and no request is
  made.
\<close>

theorem blank_name_halts_before_lookup:
  assumes "whitespace_only name"
  shows "on_submit env name width height legend = ([St_error msg_no_name], Inl StopException) \<and>
         Invoke Resolver \<notin> set (trace (on_submit env name width height legend)) \<and>
         (\<forall>url t. Requests_get url t \<notin> set (trace (on_submit env name width height legend)))"
  using assms by (simp add: on_submit_blank whitespace_only_strip trace_def)

text \<open>The name of three spaces, and a name of white space beyond ASCII.\<close>

theorem blank_name_halts_before_lookup_witness:
  "on_submit (world (Inr ethanol_response)) ''   '' 1200 800 [] =
     ([St_error msg_no_name], Inl StopException) \<and>
   on_submit (world (Inr ethanol_response))
     [CHR 0x09, CHR 0xC2, CHR 0xA0, CHR 0xE3, CHR 0x80, CHR 0x80] 1200 800 [] =
     ([St_error msg_no_name], Inl StopException)"
  using blank_name_halts_before_lookup [OF whitespace_only_spaces,
      of "world (Inr ethanol_response)" 1200 800 "[]"]
    blank_name_halts_before_lookup [OF whitespace_only_unicode,
      of "world (Inr ethanol_response)" 1200 800 "[]"]
  by simp

subsection \<open>A lookup that succeeded is never taken for a failure\<close>

text \<open>
  Claim C10. The resolver never returns the empty string: what it returns is \<^verbatim>\<open>None\<close> or a
  value that is true in Python's sense, so a string it returns is non-empty. The test
  \<^verbatim>\<open>if not smiles\<close> of the submitted form therefore lets every result other than \<^verbatim>\<open>None\<close> through
  to the parser and does not report a lookup failure for it.
\<close>

theorem resolve_never_empty:
  "result (get_smiles_from_chembl env name) \<noteq> Inr (PStr []) \<and>
   (\<forall>v. result (get_smiles_from_chembl env name) = Inr v \<longrightarrow> v = PNone \<or> truthy v) \<and>
   (\<forall>v. strip name \<noteq> [] \<and> result (get_smiles_from_chembl env (strip name)) = Inr v \<and>
        v \<noteq> PNone \<longrightarrow>
        St_error msg_not_found \<notin> set (trace (on_submit env name width height legend)) \<and>
        Invoke Parser \<in> set (trace (on_submit env name width height legend)))"
proof -
  have t: "v = PNone \<or> truthy v" if "result (get_smiles_from_chembl env n) = Inr v" for v n
    using that
    by (auto simp: get_smiles_unfold result_def split: sum.splits if_splits
        dest: decode_and_scan_truthy)
  have "St_error msg_not_found \<notin> set (trace (on_submit env name width height legend)) \<and>
        Invoke Parser \<in> set (trace (on_submit env name width height legend))"
    if "strip name \<noteq> []" "result (get_smiles_from_chembl env (strip name)) = Inr v" "v \<noteq> PNone"
    for v
  proof -
    from t that have "truthy v" by blast
    with that show ?thesis
      by (simp add: on_submit_unfold resolver_trace trace_def [of "(a, b)" for a b]
          messages_differ split: sum.splits option.splits)
  qed
  with t show ?thesis by fastforce
qed

theorem resolve_never_empty_witness:
  "result (get_smiles_from_chembl (world (Inr ethanol_response)) ''ethanol'') \<noteq> Inr (PStr []) \<and>
   St_error msg_not_found \<notin>
     set (trace (on_submit (world (Inr ethanol_response)) ''  ethanol '' 1200 800 [])) \<and>
   Invoke Parser \<in> set (trace (on_submit (world (Inr ethanol_response)) ''  ethanol '' 1200 800 []))"
proof -
  have name: "strip ''  ethanol '' \<noteq> []"
    by (simp add: strip_ethanol)
  have found: "result (get_smiles_from_chembl (world (Inr ethanol_response)) (strip ''  ethanol ''))
      = Inr (PStr ''CCO'')"
    by (simp add: get_smiles_unfold result_def world_def ethanol_response_def
        ethanol_candidates_def decode_and_scan_def response_json_def py_or_def)
  show ?thesis
    using name found
      resolve_never_empty [of "world (Inr ethanol_response)" "''ethanol''" 1200 800 "[]"]
      resolve_never_empty [of "world (Inr ethanol_response)" "''  ethanol ''" 1200 800 "[]"]
    by simp
qed

end
